theory Spec2Isabelle
  imports Complex_Main
begin

section \<open>JavaScript values used by the forms\<close>

text \<open>
  A JavaScript \<^verbatim>\<open>number\<close> is modelled as a real. The forms only compare numbers
  (greater than zero, at most zero, greater than, truthiness) and pass them on unchanged
  (\<^verbatim>\<open>Number(x)\<close> of a number is that number); no arithmetic is done on them. NaN never
  reaches a submit handler: every numeric field goes through \<^verbatim>\<open>z.number()\<close>, which rejects it.
  An optional field (\<^verbatim>\<open>z.number().optional()\<close>, \<^verbatim>\<open>z.string().optional()\<close>) is an
  option, \<^verbatim>\<open>undefined\<close> being \<open>None\<close>.
\<close>

type_synonym number = real

text \<open>\<^verbatim>\<open>!!v\<close> for an optional number: \<^verbatim>\<open>undefined\<close> and \<^verbatim>\<open>0\<close> are falsy, every other
  number (negative ones too) is truthy.\<close>

definition truthy_number :: "number option \<Rightarrow> bool" where
  "truthy_number v = (case v of None \<Rightarrow> False | Some x \<Rightarrow> x \<noteq> 0)"

text \<open>\<^verbatim>\<open>v || 0\<close> for an optional number.\<close>

definition number_or_zero :: "number option \<Rightarrow> number" where
  "number_or_zero v = (if truthy_number v then the v else 0)"

text \<open>A string used as a condition (\<^verbatim>\<open>area.type && ...\<close>): only the empty string is falsy.\<close>

definition truthy_string :: "string \<Rightarrow> bool" where
  "truthy_string s = (s \<noteq> [])"

text \<open>\<^verbatim>\<open>v || ''\<close> for an optional string.\<close>

definition string_or_empty :: "string option \<Rightarrow> string" where
  "string_or_empty v = (case v of None \<Rightarrow> [] | Some s \<Rightarrow> s)"

text \<open>
  \<^verbatim>\<open>String.prototype.trim\<close> removes white space and line terminators from both ends.
  With 8-bit characters these are tab, line feed, vertical tab, form feed, carriage
  return, space and the no-break space.
\<close>

definition is_white_space :: "char \<Rightarrow> bool" where
  "is_white_space c =
     (c \<in> set [CHR 0x09, CHR 0x0A, CHR 0x0B, CHR 0x0C, CHR 0x0D, CHR 0x20, CHR 0xA0])"

definition trim :: "string \<Rightarrow> string" where
  "trim s = rev (dropWhile is_white_space (rev (dropWhile is_white_space s)))"

text \<open>
  \<^verbatim>\<open>xs.filter((x, i) => p(x, i))\<close>: the callback sees each element with its index,
  counted from 0; the elements kept stay in order.
\<close>

fun filter_from :: "('a \<Rightarrow> nat \<Rightarrow> bool) \<Rightarrow> nat \<Rightarrow> 'a list \<Rightarrow> 'a list" where
  "filter_from p i [] = []"
| "filter_from p i (x # xs) =
     (if p x i then x # filter_from p (Suc i) xs else filter_from p (Suc i) xs)"

definition filter_indexed :: "('a \<Rightarrow> nat \<Rightarrow> bool) \<Rightarrow> 'a list \<Rightarrow> 'a list" where
  "filter_indexed p xs = filter_from p 0 xs"

section \<open>Form values\<close>

record equipment_row =
  labName :: string
  equipmentName :: string
  capacityAndMake :: string

record area_detail =
  area :: number
  type :: string
  furnishing :: string
  customisation :: string

text \<open>The fields the three \<^verbatim>\<open>formSchema\<close>s share; each form extends them.\<close>

record listing_values =
  name :: string
  description :: string
  images :: "string list"
  videoLink :: "string option"
  selectedRentalPlans :: "string list"
  rentPerYear :: "number option"
  rentPerMonth :: "number option"
  rentPerWeek :: "number option"
  dayPassRent :: "number option"

record bio_values = listing_values +
  equipment :: "equipment_row list"

record coworking_values = listing_values +
  totalSeats :: number
  availableSeats :: number

record raw_values = listing_values +
  areaDetails :: "area_detail list"

text \<open>
  Modelled from the spec: \<^verbatim>\<open>RENTAL_PLANS\<close> is imported from \<^verbatim>\<open>../types\<close>, which is not among
  the sources. The glossary names the four pricing tiers (Annual, Monthly, Weekly, One Day);
  the spelling of each name is the one the \<^verbatim>\<open>switch\<close> statements of the forms compare with.
\<close>

definition RENTAL_PLANS :: "string list" where
  "RENTAL_PLANS = [''Annual'', ''Monthly'', ''Weekly'', ''One Day (24 Hours)'']"

subsection \<open>The zod schemas\<close>

text \<open>
  \<^verbatim>\<open>form.handleSubmit(handleFormSubmit)\<close> hands the values to \<^verbatim>\<open>handleFormSubmit\<close> only
  when they pass the form's \<^verbatim>\<open>formSchema\<close>. The schemas say which values a submit handler can
  receive; the handlers themselves are modelled on every value of their argument's type.
\<close>

definition formSchema_shared :: "'a listing_values_scheme \<Rightarrow> bool" where
  "formSchema_shared v =
     (1 \<le> length (name v) \<and> 1 \<le> length (description v) \<and> 1 \<le> length (images v) \<and>
      list_all (\<lambda>p. p \<in> set RENTAL_PLANS) (selectedRentalPlans v) \<and>
      1 \<le> length (selectedRentalPlans v))"

definition formSchema_bio :: "bio_values \<Rightarrow> bool" where
  "formSchema_bio v =
     (formSchema_shared v \<and>
      list_all (\<lambda>e. 1 \<le> length (labName e) \<and> 1 \<le> length (equipmentName e) \<and>
                    1 \<le> length (capacityAndMake e)) (equipment v) \<and>
      1 \<le> length (equipment v))"

definition formSchema_coworking :: "coworking_values \<Rightarrow> bool" where
  "formSchema_coworking v =
     (formSchema_shared v \<and> 1 \<le> totalSeats v \<and> 0 \<le> availableSeats v)"

definition formSchema_raw :: "raw_values \<Rightarrow> bool" where
  "formSchema_raw v =
     (formSchema_shared v \<and>
      list_all (\<lambda>a. 1 \<le> area a \<and>
                    type a \<in> set [''Covered'', ''Uncovered''] \<and>
                    furnishing a \<in> set [''Furnished'', ''Not Furnished''] \<and>
                    customisation a
                      \<in> set [''Open to Customisation'', ''Cannot be Customised''])
        (areaDetails v) \<and>
      1 \<le> length (areaDetails v))"

section \<open>The form object and the component state\<close>

text \<open>
  The object \<^verbatim>\<open>useForm\<close> returns (react-hook-form), as far as the components use it: the
  current values, the \<^verbatim>\<open>defaultValues\<close> it was created with and the error messages by
  field path (\<^verbatim>\<open>'root'\<close> for the form-level one).
\<close>

record 'v form =
  form_values :: 'v
  defaultValues :: 'v
  errors :: "string \<rightharpoonup> string"

text \<open>\<^verbatim>\<open>form.setError(path, {type: 'manual', message})\<close>.\<close>

definition setError :: "string \<Rightarrow> string \<Rightarrow> 'v form \<Rightarrow> 'v form" where
  "setError path message f = f\<lparr>errors := (errors f)(path \<mapsto> message)\<rparr>"

text \<open>\<^verbatim>\<open>form.reset()\<close>: back to the default values, with no error.\<close>

definition reset :: "'v form \<Rightarrow> 'v form" where
  "reset f = f\<lparr>form_values := defaultValues f, errors := Map.empty\<rparr>"

text \<open>
  What a form component holds: the form object, the \<^verbatim>\<open>images\<close> of \<^verbatim>\<open>useState\<close>, and two
  traces of its calls to the outside: the payloads passed to \<^verbatim>\<open>onSubmit\<close>, in order, and
  the number of \<^verbatim>\<open>onChange?.()\<close> notifications. The forms with a repeatable record add its
  local list. Console output is not modelled.
\<close>

record ('v, 'p) facility_form =
  form :: "'v form"
  images_state :: "string list"
  submitted :: "'p list"
  onChange_calls :: nat

text \<open>The \<^verbatim>\<open>await onSubmit(submissionData)\<close> either resolves or rejects (or throws).\<close>

datatype outcome = Resolved | Rejected

definition set_form_error ::
  "string \<Rightarrow> string \<Rightarrow> ('v, 'p, 'z) facility_form_scheme \<Rightarrow> ('v, 'p, 'z) facility_form_scheme" where
  "set_form_error path message st = st\<lparr>form := setError path message (form st)\<rparr>"

section \<open>Payloads\<close>

record rental_plan =
  plan_name :: string
  price :: number
  duration :: string

text \<open>The fields every \<^verbatim>\<open>submissionData\<close> has; the prefix keeps them apart from the form's.\<close>

record submission =
  p_type :: string
  p_name :: string
  p_description :: string
  p_images :: "string list"
  p_videoLink :: string
  p_rentalPlans :: "rental_plan list"

record bio_payload = submission +
  p_equipment :: "equipment_row list"
  p_rentPerYear :: "number option"
  p_rentPerMonth :: "number option"
  p_rentPerWeek :: "number option"
  p_dayPassRent :: "number option"

record coworking_payload = submission +
  p_totalSeats :: number
  p_availableSeats :: number

record raw_payload = submission +
  p_areaDetails :: "area_detail list"

record bio_state = "(bio_values, bio_payload) facility_form" +
  equipment_state :: "equipment_row list"

type_synonym coworking_state = "(coworking_values, coworking_payload) facility_form"

record raw_state = "(raw_values, raw_payload) facility_form" +
  areaDetails_state :: "area_detail list"

section \<open>Rental plans at submission\<close>

text \<open>
  The three \<^verbatim>\<open>handleFormSubmit\<close> functions hold the same two \<^verbatim>\<open>switch\<close> statements over the
  plan name, word for word: the one inside \<^verbatim>\<open>rentValidation\<close> (\<^verbatim>\<open>return !!values.rentPerYear\<close>,
  ..., \<^verbatim>\<open>default: return false\<close>) and the one that prices a plan for the payload
  (\<^verbatim>\<open>price = values.rentPerYear || 0\<close>, ..., starting from \<^verbatim>\<open>let price = 0\<close>).
\<close>

definition rent_provided :: "'a listing_values_scheme \<Rightarrow> string \<Rightarrow> bool" where
  "rent_provided values plan =
     (if plan = ''Annual'' then truthy_number (rentPerYear values)
      else if plan = ''Monthly'' then truthy_number (rentPerMonth values)
      else if plan = ''Weekly'' then truthy_number (rentPerWeek values)
      else if plan = ''One Day (24 Hours)'' then truthy_number (dayPassRent values)
      else False)"

definition rentValidation :: "'a listing_values_scheme \<Rightarrow> bool" where
  "rentValidation values = list_all (rent_provided values) (selectedRentalPlans values)"

definition plan_price :: "'a listing_values_scheme \<Rightarrow> string \<Rightarrow> number" where
  "plan_price values plan =
     (if plan = ''Annual'' then number_or_zero (rentPerYear values)
      else if plan = ''Monthly'' then number_or_zero (rentPerMonth values)
      else if plan = ''Weekly'' then number_or_zero (rentPerWeek values)
      else if plan = ''One Day (24 Hours)'' then number_or_zero (dayPassRent values)
      else 0)"

definition rentalPlans :: "'a listing_values_scheme \<Rightarrow> rental_plan list" where
  "rentalPlans values =
     map (\<lambda>plan. \<lparr>plan_name = plan, price = plan_price values plan, duration = plan\<rparr>)
       (selectedRentalPlans values)"

section \<open>BioAlliedLabsForm\<close>

definition blank_equipment :: equipment_row where
  "blank_equipment = \<lparr>labName = [], equipmentName = [], capacityAndMake = []\<rparr>"

text \<open>\<^verbatim>\<open>removeEquipment(index)\<close>: the same filter on the local list and on the form's array.\<close>

definition removeEquipment :: "int \<Rightarrow> bio_state \<Rightarrow> bio_state" where
  "removeEquipment index st =
     st\<lparr>equipment_state := filter_indexed (\<lambda>_ i. int i \<noteq> index) (equipment_state st),
        form := (form st)\<lparr>form_values := (form_values (form st))
          \<lparr>equipment :=
             filter_indexed (\<lambda>_ i. int i \<noteq> index) (equipment (form_values (form st)))\<rparr>\<rparr>\<rparr>"

definition validEquipment :: "bio_values \<Rightarrow> equipment_row list" where
  "validEquipment values =
     filter (\<lambda>eq. trim (labName eq) \<noteq> [] \<and> trim (equipmentName eq) \<noteq> [] \<and>
                  trim (capacityAndMake eq) \<noteq> [])
       (equipment values)"

definition submissionData_bio :: "bio_state \<Rightarrow> bio_values \<Rightarrow> bio_payload" where
  "submissionData_bio st values =
     \<lparr>p_type = ''bio-allied-labs'',
      p_name = name values,
      p_description = description values,
      p_images = images_state st,
      p_videoLink = string_or_empty (videoLink values),
      p_rentalPlans = rentalPlans values,
      p_equipment =
        map (\<lambda>eq. \<lparr>labName = labName eq, equipmentName = equipmentName eq,
                    capacityAndMake = capacityAndMake eq\<rparr>)
          (validEquipment values),
      p_rentPerYear = rentPerYear values,
      p_rentPerMonth = rentPerMonth values,
      p_rentPerWeek = rentPerWeek values,
      p_dayPassRent = dayPassRent values\<rparr>"

definition handleFormSubmit_bio ::
  "(bio_payload \<Rightarrow> outcome) \<Rightarrow> bio_state \<Rightarrow> bio_values \<Rightarrow> bio_state" where
  "handleFormSubmit_bio onSubmit st values =
     (if length (images_state st) = 0
      then set_form_error ''root'' ''Please upload at least one image'' st
      else if length (validEquipment values) = 0
      then set_form_error ''root''
             ''Please add at least one equipment with all fields filled'' st
      else if length (selectedRentalPlans values) = 0
      then set_form_error ''root'' ''Please select at least one rental plan'' st
      else if \<not> rentValidation values
      then set_form_error ''root''
             ''Please provide rent values for all selected rental plans'' st
      else
        (case onSubmit (submissionData_bio st values) of
           Resolved \<Rightarrow>
             st\<lparr>form := reset (form st),
                images_state := [],
                submitted := submitted st @ [submissionData_bio st values],
                onChange_calls := Suc (onChange_calls st),
                equipment_state := [blank_equipment]\<rparr>
         | Rejected \<Rightarrow>
             set_form_error ''root'' ''Failed to submit form. Please try again.''
               (st\<lparr>submitted := submitted st @ [submissionData_bio st values]\<rparr>)))"

text \<open>The rental-plan checkbox of this form: \<^verbatim>\<open>field.onChange\<close> of the new selection, then
  \<^verbatim>\<open>onChange?.()\<close>.\<close>

definition onCheckedChange_bio :: "string \<Rightarrow> bool \<Rightarrow> bio_state \<Rightarrow> bio_state" where
  "onCheckedChange_bio plan checked st =
     st\<lparr>form := (form st)\<lparr>form_values := (form_values (form st))
          \<lparr>selectedRentalPlans :=
             (if checked then selectedRentalPlans (form_values (form st)) @ [plan]
              else filter (\<lambda>p. p \<noteq> plan) (selectedRentalPlans (form_values (form st))))\<rparr>\<rparr>,
        onChange_calls := Suc (onChange_calls st)\<rparr>"

section \<open>CoworkingSpacesForm and RawSpaceLabForm\<close>

text \<open>
  The rental-plan checkbox of these two forms, the same code in both: \<^verbatim>\<open>field.onChange\<close>
  of the new selection and, when unchecked, \<^verbatim>\<open>form.setValue\<close> of the plan's price field to
  \<^verbatim>\<open>undefined\<close>.
\<close>

definition clear_rent :: "string \<Rightarrow> 'a listing_values_scheme \<Rightarrow> 'a listing_values_scheme" where
  "clear_rent plan values =
     (if plan = ''Annual'' then values\<lparr>rentPerYear := None\<rparr>
      else if plan = ''Monthly'' then values\<lparr>rentPerMonth := None\<rparr>
      else if plan = ''Weekly'' then values\<lparr>rentPerWeek := None\<rparr>
      else if plan = ''One Day (24 Hours)'' then values\<lparr>dayPassRent := None\<rparr>
      else values)"

definition updatedPlans :: "string \<Rightarrow> bool \<Rightarrow> 'a listing_values_scheme \<Rightarrow> string list" where
  "updatedPlans plan checked values =
     (if checked then selectedRentalPlans values @ [plan]
      else filter (\<lambda>p. p \<noteq> plan) (selectedRentalPlans values))"

definition onCheckedChange_coworking ::
  "string \<Rightarrow> bool \<Rightarrow> coworking_state \<Rightarrow> coworking_state" where
  "onCheckedChange_coworking plan checked st =
     (let changed = (form_values (form st))
            \<lparr>selectedRentalPlans := updatedPlans plan checked (form_values (form st))\<rparr>
      in st\<lparr>form := (form st)
           \<lparr>form_values := (if \<not> checked then clear_rent plan changed else changed)\<rparr>\<rparr>)"

definition onCheckedChange_raw :: "string \<Rightarrow> bool \<Rightarrow> raw_state \<Rightarrow> raw_state" where
  "onCheckedChange_raw plan checked st =
     (let changed = (form_values (form st))
            \<lparr>selectedRentalPlans := updatedPlans plan checked (form_values (form st))\<rparr>
      in st\<lparr>form := (form st)
           \<lparr>form_values := (if \<not> checked then clear_rent plan changed else changed)\<rparr>\<rparr>)"

definition submissionData_coworking ::
  "coworking_state \<Rightarrow> coworking_values \<Rightarrow> coworking_payload" where
  "submissionData_coworking st values =
     \<lparr>p_type = ''coworking-spaces'',
      p_name = name values,
      p_description = description values,
      p_images = images_state st,
      p_videoLink = string_or_empty (videoLink values),
      p_rentalPlans = rentalPlans values,
      p_totalSeats = totalSeats values,
      p_availableSeats = availableSeats values\<rparr>"

definition handleFormSubmit_coworking ::
  "(coworking_payload \<Rightarrow> outcome) \<Rightarrow> coworking_state \<Rightarrow> coworking_values \<Rightarrow> coworking_state"
  where
  "handleFormSubmit_coworking onSubmit st values =
     (if length (images_state st) = 0
      then set_form_error ''root'' ''Please upload at least one image'' st
      else if length (selectedRentalPlans values) = 0
      then set_form_error ''root'' ''Please select at least one rental plan'' st
      else if \<not> rentValidation values
      then set_form_error ''root''
             ''Please provide rent values for all selected rental plans'' st
      else if totalSeats values \<le> 0
      then set_form_error ''totalSeats'' ''Total seats must be greater than 0'' st
      else if availableSeats values > totalSeats values
      then set_form_error ''availableSeats'' ''Available seats cannot exceed total seats'' st
      else
        (case onSubmit (submissionData_coworking st values) of
           Resolved \<Rightarrow>
             st\<lparr>form := reset (form st),
                images_state := [],
                submitted := submitted st @ [submissionData_coworking st values],
                onChange_calls := Suc (onChange_calls st)\<rparr>
         | Rejected \<Rightarrow>
             set_form_error ''root'' ''Failed to submit form. Please try again.''
               (st\<lparr>submitted := submitted st @ [submissionData_coworking st values]\<rparr>)))"

definition blank_areaDetail :: area_detail where
  "blank_areaDetail =
     \<lparr>area = 0, type = ''Covered'', furnishing = ''Not Furnished'',
      customisation = ''Open to Customisation''\<rparr>"

text \<open>\<^verbatim>\<open>removeAreaDetail(index)\<close>.\<close>

definition removeAreaDetail :: "int \<Rightarrow> raw_state \<Rightarrow> raw_state" where
  "removeAreaDetail index st =
     st\<lparr>areaDetails_state := filter_indexed (\<lambda>_ i. int i \<noteq> index) (areaDetails_state st),
        form := (form st)\<lparr>form_values := (form_values (form st))
          \<lparr>areaDetails :=
             filter_indexed (\<lambda>_ i. int i \<noteq> index) (areaDetails (form_values (form st)))\<rparr>\<rparr>\<rparr>"

definition validAreaDetails :: "raw_values \<Rightarrow> area_detail list" where
  "validAreaDetails values =
     filter (\<lambda>a. area a > 0 \<and> truthy_string (type a) \<and> truthy_string (furnishing a) \<and>
                 truthy_string (customisation a))
       (areaDetails values)"

definition submissionData_raw :: "raw_state \<Rightarrow> raw_values \<Rightarrow> raw_payload" where
  "submissionData_raw st values =
     \<lparr>p_type = ''raw-space-lab'',
      p_name = name values,
      p_description = description values,
      p_images = images_state st,
      p_videoLink = string_or_empty (videoLink values),
      p_rentalPlans = rentalPlans values,
      p_areaDetails =
        map (\<lambda>a. \<lparr>area = area a, type = type a, furnishing = furnishing a,
                   customisation = customisation a\<rparr>)
          (validAreaDetails values)\<rparr>"

definition handleFormSubmit_raw ::
  "(raw_payload \<Rightarrow> outcome) \<Rightarrow> raw_state \<Rightarrow> raw_values \<Rightarrow> raw_state" where
  "handleFormSubmit_raw onSubmit st values =
     (if length (images_state st) = 0
      then set_form_error ''root'' ''Please upload at least one image'' st
      else if length (validAreaDetails values) = 0
      then set_form_error ''root''
             ''Please add at least one area detail with all fields filled'' st
      else if length (selectedRentalPlans values) = 0
      then set_form_error ''root'' ''Please select at least one rental plan'' st
      else if \<not> rentValidation values
      then set_form_error ''root''
             ''Please provide rent values for all selected rental plans'' st
      else
        (case onSubmit (submissionData_raw st values) of
           Resolved \<Rightarrow>
             st\<lparr>form := reset (form st),
                images_state := [],
                submitted := submitted st @ [submissionData_raw st values],
                onChange_calls := Suc (onChange_calls st),
                areaDetails_state := [blank_areaDetail]\<rparr>
         | Rejected \<Rightarrow>
             set_form_error ''root'' ''Failed to submit form. Please try again.''
               (st\<lparr>submitted := submitted st @ [submissionData_raw st values]\<rparr>)))"

section \<open>SignIn: the redirect after authentication\<close>

datatype session_status = authenticated | loading | unauthenticated

record user =
  userType :: "string option"

record session =
  user :: "user option"

text \<open>
  The callback of \<^verbatim>\<open>useEffect\<close> in \<^verbatim>\<open>SignIn\<close>: \<open>Some target\<close> when it calls
  \<^verbatim>\<open>router.push(target)\<close>, \<open>None\<close> when it does nothing. The third argument is
  \<^verbatim>\<open>searchParams.get("from")\<close>, \<open>None\<close> for \<^verbatim>\<open>null\<close>. React runs the callback only after the
  component has rendered and committed.
\<close>

definition redirect_effect ::
  "session_status \<Rightarrow> session option \<Rightarrow> string option \<Rightarrow> string option" where
  "redirect_effect status sess from_param =
     (let from = string_or_empty from_param in
      case sess of
        None \<Rightarrow> None
      | Some s \<Rightarrow>
          (case user s of
             None \<Rightarrow> None
           | Some u \<Rightarrow>
               if status = authenticated
               then Some (if from \<noteq> [] then from
                          else if userType u = Some ''startup'' then ''/startup/dashboard''
                          else ''/service-provider/dashboard'')
               else None))"

text \<open>
  The names the module of \<^verbatim>\<open>SignIn\<close> binds by its \<^verbatim>\<open>import\<close> statements, and the
  imported names its \<^verbatim>\<open>return\<close> reads on every render, in the order of the JSX (the
  \<^verbatim>\<open>Alert\<close> block is only built when there is a root error). From \<^verbatim>\<open>react\<close> the module imports
  \<^verbatim>\<open>useEffect\<close> and \<^verbatim>\<open>useState\<close> only; the build ignores type errors, so a name that is
  not bound fails when the render reads it.
\<close>

definition page_imports :: "string list" where
  "page_imports =
     [''Link'', ''useForm'', ''zodResolver'', ''z'', ''signIn'', ''useSession'', ''useRouter'',
      ''useSearchParams'', ''useEffect'', ''useState'', ''Checkbox'', ''Input'',
      ''LoadingButton'', ''signInSchema'', ''Alert'', ''AlertDescription'',
      ''ExclamationTriangleIcon'', ''cn'', ''SearchParamsWrapper'']"

definition jsx_references :: "string list" where
  "jsx_references =
     [''Suspense'', ''SearchParamsWrapper'', ''Input'', ''cn'', ''Input'', ''cn'', ''Checkbox'',
      ''Link'', ''LoadingButton'', ''Link'']"

datatype js_error = ReferenceError string

text \<open>Rendering \<^verbatim>\<open>SignIn\<close>: reading a name that is not bound throws.\<close>

definition render_SignIn :: "js_error + unit" where
  "render_SignIn =
     (case List.find (\<lambda>c. c \<notin> set page_imports) jsx_references of
        Some c \<Rightarrow> Inl (ReferenceError c)
      | None \<Rightarrow> Inr ())"

text \<open>What the page does with a session: the effect runs only when the render did not throw.\<close>

definition SignIn_router_push ::
  "session_status \<Rightarrow> session option \<Rightarrow> string option \<Rightarrow> string option" where
  "SignIn_router_push status sess from_param =
     (case render_SignIn of
        Inl _ \<Rightarrow> None
      | Inr _ \<Rightarrow> redirect_effect status sess from_param)"

section \<open>The claims' own words\<close>

text \<open>
  The price field that belongs to a plan, as the specification pairs them: \<^verbatim>\<open>rentPerYear\<close>
  for Annual, \<^verbatim>\<open>rentPerMonth\<close> for Monthly, \<^verbatim>\<open>rentPerWeek\<close> for Weekly, \<^verbatim>\<open>dayPassRent\<close> for
  One Day (24 Hours); any other name has no price field.
\<close>

definition spec_price_field :: "'a listing_values_scheme \<Rightarrow> string \<Rightarrow> number option" where
  "spec_price_field values plan =
     (if plan = ''Annual'' then rentPerYear values
      else if plan = ''Monthly'' then rentPerMonth values
      else if plan = ''Weekly'' then rentPerWeek values
      else if plan = ''One Day (24 Hours)'' then dayPassRent values
      else None)"

text \<open>The specification's condition on a selected plan: its price field is set and positive.\<close>

definition spec_positive_price :: "'a listing_values_scheme \<Rightarrow> string \<Rightarrow> bool" where
  "spec_positive_price values plan =
     (case spec_price_field values plan of None \<Rightarrow> False | Some x \<Rightarrow> 0 < x)"

section \<open>Example drafts\<close>

text \<open>Equipment rows; the second one has a blank equipment name (two spaces).\<close>

definition equipment_L1 :: equipment_row where
  "equipment_L1 = \<lparr>labName = ''L1'', equipmentName = ''E1'', capacityAndMake = ''C1''\<rparr>"

definition equipment_L2 :: equipment_row where
  "equipment_L2 = \<lparr>labName = ''L2'', equipmentName = ''  '', capacityAndMake = ''C2''\<rparr>"

definition equipment_L3 :: equipment_row where
  "equipment_L3 = \<lparr>labName = ''L3'', equipmentName = ''E3'', capacityAndMake = ''C3''\<rparr>"

text \<open>
  The draft of the specification's end-to-end example. It gives neither a description nor a
  video link, so both are parameters; the three rents it does not mention are \<^verbatim>\<open>undefined\<close>.
\<close>

definition lab_a_draft :: "string \<Rightarrow> string option \<Rightarrow> bio_values" where
  "lab_a_draft d v =
     \<lparr>name = ''Lab A'', description = d, images = [''u1''], videoLink = v,
      selectedRentalPlans = [''Monthly''],
      rentPerYear = None, rentPerMonth = Some 5000, rentPerWeek = None, dayPassRent = None,
      equipment = [equipment_L1]\<rparr>"

definition lab_a_state :: "string \<Rightarrow> string option \<Rightarrow> bio_state" where
  "lab_a_state d v =
     \<lparr>form = \<lparr>form_values = lab_a_draft d v, defaultValues = lab_a_draft d v,
              errors = Map.empty\<rparr>,
      images_state = [''u1''], submitted = [], onChange_calls = 0,
      equipment_state = [equipment_L1]\<rparr>"

text \<open>A draft that selects Annual with a yearly rent of -5, and one whose only equipment row
  is incomplete and whose selected plan has no rent.\<close>

definition negative_rent_values :: bio_values where
  "negative_rent_values =
     (lab_a_draft ''lab'' None)
       \<lparr>selectedRentalPlans := [''Annual''], rentPerYear := Some (- 5), rentPerMonth := None\<rparr>"

definition blank_row_values :: bio_values where
  "blank_row_values =
     (lab_a_draft ''lab'' None)\<lparr>rentPerMonth := None, equipment := [equipment_L2]\<rparr>"

definition example_bio_values :: bio_values where
  "example_bio_values =
     \<lparr>name = ''Lab B'', description = ''wet lab'', images = [''u1''], videoLink = None,
      selectedRentalPlans = [''Annual'', ''Weekly''],
      rentPerYear = Some 90000, rentPerMonth = None, rentPerWeek = Some 2500, dayPassRent = None,
      equipment = [equipment_L1, equipment_L2, equipment_L3]\<rparr>"

definition example_bio_state :: bio_state where
  "example_bio_state =
     \<lparr>form = \<lparr>form_values = example_bio_values, defaultValues = lab_a_draft [] None,
              errors = Map.empty\<rparr>,
      images_state = [''u1''], submitted = [], onChange_calls = 0,
      equipment_state = [equipment_L1, equipment_L2, equipment_L3]\<rparr>"


definition area_A :: area_detail where
  "area_A = \<lparr>area = 1200, type = ''Covered'', furnishing = ''Furnished'',
             customisation = ''Open to Customisation''\<rparr>"

definition area_B :: area_detail where
  "area_B = \<lparr>area = 0, type = ''Uncovered'', furnishing = ''Not Furnished'',
             customisation = ''Cannot be Customised''\<rparr>"

definition example_raw_values :: raw_values where
  "example_raw_values =
     \<lparr>name = ''Shed'', description = ''raw space'', images = [''u2''], videoLink = Some ''v'',
      selectedRentalPlans = [''One Day (24 Hours)''],
      rentPerYear = None, rentPerMonth = None, rentPerWeek = None, dayPassRent = Some 800,
      areaDetails = [area_B, area_A]\<rparr>"

definition example_raw_state :: raw_state where
  "example_raw_state =
     \<lparr>form = \<lparr>form_values = example_raw_values, defaultValues = example_raw_values,
              errors = Map.empty\<rparr>,
      images_state = [''u2''], submitted = [], onChange_calls = 0,
      areaDetails_state = [area_B, area_A]\<rparr>"

definition example_coworking_values :: coworking_values where
  "example_coworking_values =
     \<lparr>name = ''Hub'', description = ''desks'', images = [''u3''], videoLink = None,
      selectedRentalPlans = [''Monthly''],
      rentPerYear = None, rentPerMonth = Some 7000, rentPerWeek = None, dayPassRent = None,
      totalSeats = 10, availableSeats = 4\<rparr>"

definition example_coworking_state :: coworking_state where
  "example_coworking_state =
     \<lparr>form = \<lparr>form_values = example_coworking_values,
              defaultValues = example_coworking_values, errors = Map.empty\<rparr>,
      images_state = [''u3''], submitted = [], onChange_calls = 0\<rparr>"

text \<open>The form after Monthly is unchecked and Weekly is checked in the example draft.\<close>

definition stale_price_state :: bio_state where
  "stale_price_state =
     onCheckedChange_bio ''Weekly'' True
       (onCheckedChange_bio ''Monthly'' False (lab_a_state ''lab'' None))"

lemmas example_defs =
  equipment_L1_def equipment_L2_def equipment_L3_def lab_a_draft_def example_bio_values_def
  example_bio_state_def area_A_def area_B_def example_raw_values_def example_raw_state_def
  example_coworking_values_def example_coworking_state_def

section \<open>Removing a repeatable record\<close>

lemma filter_from_outside:
  "index < int k \<or> int k + int (length xs) \<le> index \<Longrightarrow>
   filter_from (\<lambda>_ i. int i \<noteq> index) k xs = xs"
  by (induction xs arbitrary: k) auto

lemma filter_from_inside:
  "int k \<le> index \<Longrightarrow> index < int k + int (length xs) \<Longrightarrow>
   filter_from (\<lambda>_ i. int i \<noteq> index) k xs
     = take (nat index - k) xs @ drop (Suc (nat index - k)) xs"
proof (induction xs arbitrary: k)
  case Nil
  then show ?case by simp
next
  case (Cons x xs)
  show ?case
  proof (cases "int k = index")
    case True
    then have "filter_from (\<lambda>_ i. int i \<noteq> index) (Suc k) xs = xs"
      by (intro filter_from_outside) simp
    with True show ?thesis by auto
  next
    case False
    with Cons.prems have lt: "int (Suc k) \<le> index" "index < int (Suc k) + int (length xs)"
      by auto
    from lt have "nat index - k = Suc (nat index - Suc k)" by linarith
    with Cons.IH[OF lt] False show ?thesis by simp
  qed
qed

lemma remove_at_inside:
  "0 \<le> index \<Longrightarrow> index < int (length xs) \<Longrightarrow>
   filter_indexed (\<lambda>_ i. int i \<noteq> index) xs = take (nat index) xs @ drop (Suc (nat index)) xs"
  using filter_from_inside[of 0 index xs] by (simp add: filter_indexed_def)

lemma remove_at_outside:
  "index < 0 \<or> int (length xs) \<le> index \<Longrightarrow>
   filter_indexed (\<lambda>_ i. int i \<noteq> index) xs = xs"
  using filter_from_outside[of index 0 xs] by (simp add: filter_indexed_def)

text \<open>
  C4: for a repeatable-record sequence of length \<open>N\<close> and an index \<open>0 \<le> i < N\<close>,
  \<^verbatim>\<open>removeEquipment(i)\<close> and \<^verbatim>\<open>removeAreaDetail(i)\<close> leave the records before \<open>i\<close> followed
  by the records after \<open>i\<close>: the record at \<open>i\<close> is gone, the others keep their order, the
  length is \<open>N - 1\<close>; the local list and the form's array are treated alike.
\<close>

theorem remove_in_range:
  assumes "0 \<le> index" and "index < int N" and "index < int M"
    and "length (equipment_state st) = N" and "length (equipment (form_values (form st))) = N"
    and "length (areaDetails_state rt) = M" and "length (areaDetails (form_values (form rt))) = M"
  shows "equipment_state (removeEquipment index st)
           = take (nat index) (equipment_state st) @ drop (Suc (nat index)) (equipment_state st)
       \<and> equipment (form_values (form (removeEquipment index st)))
           = take (nat index) (equipment (form_values (form st)))
             @ drop (Suc (nat index)) (equipment (form_values (form st)))
       \<and> length (equipment_state (removeEquipment index st)) = N - 1
       \<and> length (equipment (form_values (form (removeEquipment index st)))) = N - 1
       \<and> areaDetails_state (removeAreaDetail index rt)
           = take (nat index) (areaDetails_state rt) @ drop (Suc (nat index)) (areaDetails_state rt)
       \<and> areaDetails (form_values (form (removeAreaDetail index rt)))
           = take (nat index) (areaDetails (form_values (form rt)))
             @ drop (Suc (nat index)) (areaDetails (form_values (form rt)))
       \<and> length (areaDetails_state (removeAreaDetail index rt)) = M - 1
       \<and> length (areaDetails (form_values (form (removeAreaDetail index rt)))) = M - 1"
proof -
  have n: "nat index < N" "nat index < M" using assms(1-3) by linarith+
  have e1: "filter_indexed (\<lambda>_ i. int i \<noteq> index) (equipment_state st)
      = take (nat index) (equipment_state st) @ drop (Suc (nat index)) (equipment_state st)"
    using assms by (intro remove_at_inside) simp_all
  have e2: "filter_indexed (\<lambda>_ i. int i \<noteq> index) (equipment (form_values (form st)))
      = take (nat index) (equipment (form_values (form st)))
        @ drop (Suc (nat index)) (equipment (form_values (form st)))"
    using assms by (intro remove_at_inside) simp_all
  have a1: "filter_indexed (\<lambda>_ i. int i \<noteq> index) (areaDetails_state rt)
      = take (nat index) (areaDetails_state rt) @ drop (Suc (nat index)) (areaDetails_state rt)"
    using assms by (intro remove_at_inside) simp_all
  have a2: "filter_indexed (\<lambda>_ i. int i \<noteq> index) (areaDetails (form_values (form rt)))
      = take (nat index) (areaDetails (form_values (form rt)))
        @ drop (Suc (nat index)) (areaDetails (form_values (form rt)))"
    using assms by (intro remove_at_inside) simp_all
  show ?thesis
    using n assms(4-7) by (simp add: removeEquipment_def removeAreaDetail_def e1 e2 a1 a2)
qed

theorem remove_in_range_witness:
  "equipment_state (removeEquipment 1 example_bio_state) = [equipment_L1, equipment_L3]
   \<and> equipment (form_values (form (removeEquipment 1 example_bio_state)))
       = [equipment_L1, equipment_L3]
   \<and> areaDetails_state (removeAreaDetail 1 example_raw_state) = [area_B]
   \<and> areaDetails (form_values (form (removeAreaDetail 1 example_raw_state))) = [area_B]"
  using remove_in_range [of 1 3 2 example_bio_state example_raw_state]
  by (simp add: example_bio_state_def example_bio_values_def example_raw_state_def
      example_raw_values_def)

text \<open>
  C10: with an index outside \<open>[0, N)\<close>, negative or at least \<open>N\<close>, \<^verbatim>\<open>removeEquipment\<close> and
  \<^verbatim>\<open>removeAreaDetail\<close> change nothing: the local list and the form's array keep their
  length, records and order (the whole component state is the same).
\<close>

theorem remove_out_of_range:
  assumes "index < 0 \<or> int N \<le> index" and "index < 0 \<or> int M \<le> index"
    and "length (equipment_state st) = N" and "length (equipment (form_values (form st))) = N"
    and "length (areaDetails_state rt) = M" and "length (areaDetails (form_values (form rt))) = M"
  shows "removeEquipment index st = st \<and> removeAreaDetail index rt = rt"
  using assms by (simp add: removeEquipment_def removeAreaDetail_def remove_at_outside)

theorem remove_out_of_range_witness:
  "removeEquipment 3 example_bio_state = example_bio_state
   \<and> removeAreaDetail 3 example_raw_state = example_raw_state
   \<and> removeEquipment (- 1) example_bio_state = example_bio_state
   \<and> removeAreaDetail (- 1) example_raw_state = example_raw_state"
  using remove_out_of_range [of 3 3 2 example_bio_state example_raw_state]
    remove_out_of_range [of "- 1" 3 2 example_bio_state example_raw_state]
  by (simp add: example_bio_state_def example_bio_values_def example_raw_state_def
      example_raw_values_def)

section \<open>Checks of the submit handlers\<close>

text \<open>
  C3: when the component's image list is empty, each \<^verbatim>\<open>handleFormSubmit\<close> sets the root
  error \<^verbatim>\<open>Please upload at least one image\<close> and returns: nothing else of the state changes,
  \<^verbatim>\<open>onSubmit\<close> is not called, and this holds whatever the submitted values are, so no other
  check of the handler comes first.
\<close>

theorem images_checked_first:
  assumes "images_state bst = []" and "images_state cst = []" and "images_state rst = []"
  shows "handleFormSubmit_bio onB bst bv
           = bst\<lparr>form := (form bst)\<lparr>errors := (errors (form bst))
                (''root'' \<mapsto> ''Please upload at least one image'')\<rparr>\<rparr>
       \<and> handleFormSubmit_coworking onC cst cv
           = cst\<lparr>form := (form cst)\<lparr>errors := (errors (form cst))
                (''root'' \<mapsto> ''Please upload at least one image'')\<rparr>\<rparr>
       \<and> handleFormSubmit_raw onR rst rv
           = rst\<lparr>form := (form rst)\<lparr>errors := (errors (form rst))
                (''root'' \<mapsto> ''Please upload at least one image'')\<rparr>\<rparr>
       \<and> submitted (handleFormSubmit_bio onB bst bv) = submitted bst
       \<and> submitted (handleFormSubmit_coworking onC cst cv) = submitted cst
       \<and> submitted (handleFormSubmit_raw onR rst rv) = submitted rst"
  using assms
  by (simp add: handleFormSubmit_bio_def handleFormSubmit_coworking_def handleFormSubmit_raw_def
      set_form_error_def setError_def)

theorem images_checked_first_witness:
  "errors (form (handleFormSubmit_bio (\<lambda>_. Resolved)
      (example_bio_state\<lparr>images_state := []\<rparr>) example_bio_values)) ''root''
     = Some ''Please upload at least one image''
   \<and> errors (form (handleFormSubmit_coworking (\<lambda>_. Resolved)
      (example_coworking_state\<lparr>images_state := []\<rparr>) example_coworking_values)) ''root''
     = Some ''Please upload at least one image''
   \<and> errors (form (handleFormSubmit_raw (\<lambda>_. Resolved)
      (example_raw_state\<lparr>images_state := []\<rparr>) example_raw_values)) ''root''
     = Some ''Please upload at least one image''
   \<and> submitted (handleFormSubmit_bio (\<lambda>_. Resolved)
      (example_bio_state\<lparr>images_state := []\<rparr>) example_bio_values) = []
   \<and> submitted (handleFormSubmit_coworking (\<lambda>_. Resolved)
      (example_coworking_state\<lparr>images_state := []\<rparr>) example_coworking_values) = []
   \<and> submitted (handleFormSubmit_raw (\<lambda>_. Resolved)
      (example_raw_state\<lparr>images_state := []\<rparr>) example_raw_values) = []"
  using images_checked_first [of "example_bio_state\<lparr>images_state := []\<rparr>"
      "example_coworking_state\<lparr>images_state := []\<rparr>"
      "example_raw_state\<lparr>images_state := []\<rparr>"
      "\<lambda>_. Resolved" example_bio_values "\<lambda>_. Resolved" example_coworking_values
      "\<lambda>_. Resolved" example_raw_values]
  by (simp add: example_bio_state_def example_coworking_state_def example_raw_state_def)

text \<open>
  C6: a coworking draft with more available seats than total seats that passes the earlier
  checks (images, a selected plan, rent values, total seats above 0) gets the error
  \<^verbatim>\<open>Available seats cannot exceed total seats\<close> on the field \<^verbatim>\<open>availableSeats\<close>, and
  \<^verbatim>\<open>onSubmit\<close> is not called.
\<close>

theorem available_seats_bounded:
  assumes "images_state st \<noteq> []" and "selectedRentalPlans values \<noteq> []"
    and "rentValidation values" and "0 < totalSeats values"
    and "totalSeats values < availableSeats values"
  shows "handleFormSubmit_coworking onSubmit st values
           = st\<lparr>form := (form st)\<lparr>errors := (errors (form st))
                (''availableSeats'' \<mapsto> ''Available seats cannot exceed total seats'')\<rparr>\<rparr>
       \<and> submitted (handleFormSubmit_coworking onSubmit st values) = submitted st"
  using assms
  by (simp add: handleFormSubmit_coworking_def set_form_error_def setError_def)

theorem available_seats_bounded_witness:
  "errors (form (handleFormSubmit_coworking (\<lambda>_. Resolved) example_coworking_state
      (example_coworking_values\<lparr>availableSeats := 11\<rparr>))) ''availableSeats''
     = Some ''Available seats cannot exceed total seats''
   \<and> submitted (handleFormSubmit_coworking (\<lambda>_. Resolved) example_coworking_state
      (example_coworking_values\<lparr>availableSeats := 11\<rparr>)) = []"
  using available_seats_bounded [of example_coworking_state
      "example_coworking_values\<lparr>availableSeats := 11\<rparr>" "\<lambda>_. Resolved"]
  by (simp add: example_coworking_state_def example_coworking_values_def rentValidation_def
      rent_provided_def truthy_number_def)

subsection \<open>Rent values\<close>

text \<open>What \<^verbatim>\<open>rentValidation\<close> asks of a plan: its price field is set and is not 0.\<close>

lemma rent_provided_iff:
  "rent_provided values plan
     \<longleftrightarrow> spec_price_field values plan \<noteq> None \<and> spec_price_field values plan \<noteq> Some 0"
  by (auto simp: rent_provided_def spec_price_field_def truthy_number_def split: option.splits)

lemma rentValidation_fails:
  "plan \<in> set (selectedRentalPlans values) \<Longrightarrow> \<not> rent_provided values plan
     \<Longrightarrow> \<not> rentValidation values"
  by (auto simp: rentValidation_def list_all_iff)

text \<open>
  C1, amended: when a selected plan has a price field that is \<^verbatim>\<open>undefined\<close> or 0
  (or is none of the four plans), no handler calls \<^verbatim>\<open>onSubmit\<close>; and when the draft passes
  the checks that come before (images, and a complete equipment or area row in the forms
  that have them), the handler sets the root error
  \<^verbatim>\<open>Please provide rent values for all selected rental plans\<close> and changes nothing else.
\<close>

theorem rent_values_required:
  assumes "bplan \<in> set (selectedRentalPlans bv)"
    and "spec_price_field bv bplan = None \<or> spec_price_field bv bplan = Some 0"
    and "cplan \<in> set (selectedRentalPlans cv)"
    and "spec_price_field cv cplan = None \<or> spec_price_field cv cplan = Some 0"
    and "rplan \<in> set (selectedRentalPlans rv)"
    and "spec_price_field rv rplan = None \<or> spec_price_field rv rplan = Some 0"
  shows "submitted (handleFormSubmit_bio onB bst bv) = submitted bst
       \<and> (images_state bst \<noteq> [] \<and> validEquipment bv \<noteq> [] \<longrightarrow>
            handleFormSubmit_bio onB bst bv
              = bst\<lparr>form := (form bst)\<lparr>errors := (errors (form bst))
                  (''root'' \<mapsto> ''Please provide rent values for all selected rental plans'')\<rparr>\<rparr>)
       \<and> submitted (handleFormSubmit_coworking onC cst cv) = submitted cst
       \<and> (images_state cst \<noteq> [] \<longrightarrow>
            handleFormSubmit_coworking onC cst cv
              = cst\<lparr>form := (form cst)\<lparr>errors := (errors (form cst))
                  (''root'' \<mapsto> ''Please provide rent values for all selected rental plans'')\<rparr>\<rparr>)
       \<and> submitted (handleFormSubmit_raw onR rst rv) = submitted rst
       \<and> (images_state rst \<noteq> [] \<and> validAreaDetails rv \<noteq> [] \<longrightarrow>
            handleFormSubmit_raw onR rst rv
              = rst\<lparr>form := (form rst)\<lparr>errors := (errors (form rst))
                  (''root'' \<mapsto> ''Please provide rent values for all selected rental plans'')\<rparr>\<rparr>)"
proof -
  have b: "\<not> rentValidation bv" "selectedRentalPlans bv \<noteq> []"
    using assms(1,2) rentValidation_fails[of bplan bv] by (auto simp: rent_provided_iff)
  have c: "\<not> rentValidation cv" "selectedRentalPlans cv \<noteq> []"
    using assms(3,4) rentValidation_fails[of cplan cv] by (auto simp: rent_provided_iff)
  have r: "\<not> rentValidation rv" "selectedRentalPlans rv \<noteq> []"
    using assms(5,6) rentValidation_fails[of rplan rv] by (auto simp: rent_provided_iff)
  have "submitted (handleFormSubmit_bio onB bst bv) = submitted bst"
    "images_state bst \<noteq> [] \<and> validEquipment bv \<noteq> [] \<longrightarrow>
            handleFormSubmit_bio onB bst bv
              = bst\<lparr>form := (form bst)\<lparr>errors := (errors (form bst))
                  (''root'' \<mapsto> ''Please provide rent values for all selected rental plans'')\<rparr>\<rparr>"
    using b by (simp_all add: handleFormSubmit_bio_def set_form_error_def setError_def)
  moreover have "submitted (handleFormSubmit_coworking onC cst cv) = submitted cst"
    "images_state cst \<noteq> [] \<longrightarrow>
            handleFormSubmit_coworking onC cst cv
              = cst\<lparr>form := (form cst)\<lparr>errors := (errors (form cst))
                  (''root'' \<mapsto> ''Please provide rent values for all selected rental plans'')\<rparr>\<rparr>"
    using c by (simp_all add: handleFormSubmit_coworking_def set_form_error_def setError_def)
  moreover have "submitted (handleFormSubmit_raw onR rst rv) = submitted rst"
    "images_state rst \<noteq> [] \<and> validAreaDetails rv \<noteq> [] \<longrightarrow>
            handleFormSubmit_raw onR rst rv
              = rst\<lparr>form := (form rst)\<lparr>errors := (errors (form rst))
                  (''root'' \<mapsto> ''Please provide rent values for all selected rental plans'')\<rparr>\<rparr>"
    using r by (simp_all add: handleFormSubmit_raw_def set_form_error_def setError_def)
  ultimately show ?thesis by blast
qed

theorem rent_values_required_witness:
  "errors (form (handleFormSubmit_bio (\<lambda>_. Resolved) (lab_a_state ''lab'' None)
      ((lab_a_draft ''lab'' None)\<lparr>rentPerMonth := Some 0\<rparr>))) ''root''
     = Some ''Please provide rent values for all selected rental plans''
   \<and> submitted (handleFormSubmit_bio (\<lambda>_. Resolved) (lab_a_state ''lab'' None)
      ((lab_a_draft ''lab'' None)\<lparr>rentPerMonth := Some 0\<rparr>)) = []
   \<and> errors (form (handleFormSubmit_coworking (\<lambda>_. Resolved) example_coworking_state
      (example_coworking_values\<lparr>rentPerMonth := None\<rparr>))) ''root''
     = Some ''Please provide rent values for all selected rental plans''
   \<and> submitted (handleFormSubmit_coworking (\<lambda>_. Resolved) example_coworking_state
      (example_coworking_values\<lparr>rentPerMonth := None\<rparr>)) = []
   \<and> errors (form (handleFormSubmit_raw (\<lambda>_. Resolved) example_raw_state
      (example_raw_values\<lparr>selectedRentalPlans := [''One Day (24 Hours)'', ''Daily'']\<rparr>))) ''root''
     = Some ''Please provide rent values for all selected rental plans''
   \<and> submitted (handleFormSubmit_raw (\<lambda>_. Resolved) example_raw_state
      (example_raw_values\<lparr>selectedRentalPlans := [''One Day (24 Hours)'', ''Daily'']\<rparr>)) = []"
  using rent_values_required [of "''Monthly''" "(lab_a_draft ''lab'' None)\<lparr>rentPerMonth := Some 0\<rparr>"
      "''Monthly''" "example_coworking_values\<lparr>rentPerMonth := None\<rparr>"
      "''Daily''" "example_raw_values\<lparr>selectedRentalPlans := [''One Day (24 Hours)'', ''Daily'']\<rparr>"
      "\<lambda>_. Resolved" "lab_a_state ''lab'' None" "\<lambda>_. Resolved" example_coworking_state
      "\<lambda>_. Resolved" example_raw_state]
  by (simp add: example_defs lab_a_state_def spec_price_field_def validEquipment_def
      validAreaDetails_def trim_def is_white_space_def truthy_string_def)

text \<open>
  C1 as stated fails on two drafts that pass the form's schema. A draft whose selected plan
  has no rent, but whose only equipment row is incomplete, ends with the equipment error,
  not the rent error: the handlers check in a fixed order. And a yearly rent of -5 is not a
  positive number, yet the draft is submitted with that price; the statement above is
  limited to a missing or zero price and says nothing of negative ones.
\<close>

theorem rent_positive_counterexample:
  "''Annual'' \<in> set (selectedRentalPlans negative_rent_values)
   \<and> \<not> spec_positive_price negative_rent_values ''Annual''
   \<and> formSchema_bio negative_rent_values
   \<and> errors (form (handleFormSubmit_bio (\<lambda>_. Resolved) (lab_a_state ''lab'' None)
        negative_rent_values)) ''root'' = None
   \<and> map p_rentalPlans (submitted (handleFormSubmit_bio (\<lambda>_. Resolved) (lab_a_state ''lab'' None)
        negative_rent_values))
       = [[\<lparr>plan_name = ''Annual'', price = - 5, duration = ''Annual''\<rparr>]]
   \<and> ''Monthly'' \<in> set (selectedRentalPlans blank_row_values)
   \<and> \<not> spec_positive_price blank_row_values ''Monthly''
   \<and> formSchema_bio blank_row_values
   \<and> errors (form (handleFormSubmit_bio (\<lambda>_. Resolved) (lab_a_state ''lab'' None)
        blank_row_values)) ''root''
       = Some ''Please add at least one equipment with all fields filled''"
  by (simp add: negative_rent_values_def blank_row_values_def lab_a_state_def lab_a_draft_def
      equipment_L1_def equipment_L2_def spec_positive_price_def spec_price_field_def
      formSchema_bio_def formSchema_shared_def RENTAL_PLANS_def
      handleFormSubmit_bio_def validEquipment_def trim_def is_white_space_def
      rentValidation_def rent_provided_def truthy_number_def submissionData_bio_def
      rentalPlans_def plan_price_def number_or_zero_def reset_def set_form_error_def
      setError_def)

section \<open>Unchecking a rental plan\<close>

text \<open>In CoworkingSpacesForm and RawSpaceLabForm, unchecking a plan removes it from the
  selection, clears its price field and leaves the other price fields alone.\<close>

lemma uncheck_clears_price:
  fixes v :: "'a listing_values_scheme"
  shows "selectedRentalPlans (clear_rent plan (v\<lparr>selectedRentalPlans := updatedPlans plan False v\<rparr>))
           = filter (\<lambda>p. p \<noteq> plan) (selectedRentalPlans v)"
    and "plan \<in> set RENTAL_PLANS \<Longrightarrow>
         spec_price_field (clear_rent plan (v\<lparr>selectedRentalPlans := updatedPlans plan False v\<rparr>)) plan = None"
    and "other \<noteq> plan \<Longrightarrow>
         spec_price_field (clear_rent plan (v\<lparr>selectedRentalPlans := updatedPlans plan False v\<rparr>)) other
           = spec_price_field v other"
  by (auto simp: clear_rent_def updatedPlans_def spec_price_field_def RENTAL_PLANS_def)

text \<open>
  C2: unchecking a plan should clear its price field in every form. BioAlliedLabsForm does
  not: after Monthly is unchecked, \<^verbatim>\<open>rentPerMonth\<close> is still 5000, and a later submission
  with Weekly selected carries \<^verbatim>\<open>rentPerMonth: 5000\<close> in its payload. The other two forms
  clear the field.
\<close>

theorem uncheck_bio_keeps_price:
  "selectedRentalPlans (form_values (form
      (onCheckedChange_bio ''Monthly'' False (lab_a_state ''lab'' None)))) = []
   \<and> rentPerMonth (form_values (form
      (onCheckedChange_bio ''Monthly'' False (lab_a_state ''lab'' None)))) = Some 5000
   \<and> map (\<lambda>p. (p_rentalPlans p, p_rentPerMonth p))
        (submitted (handleFormSubmit_bio (\<lambda>_. Resolved) stale_price_state
           ((form_values (form stale_price_state))\<lparr>rentPerWeek := Some 900\<rparr>)))
       = [([\<lparr>plan_name = ''Weekly'', price = 900, duration = ''Weekly''\<rparr>], Some 5000)]
   \<and> selectedRentalPlans (form_values (form
      (onCheckedChange_coworking ''Monthly'' False example_coworking_state))) = []
   \<and> rentPerMonth (form_values (form example_coworking_state)) = Some 7000
   \<and> rentPerMonth (form_values (form
      (onCheckedChange_coworking ''Monthly'' False example_coworking_state))) = None
   \<and> dayPassRent (form_values (form example_raw_state)) = Some 800
   \<and> dayPassRent (form_values (form
      (onCheckedChange_raw ''One Day (24 Hours)'' False example_raw_state))) = None"
  by (simp add: stale_price_state_def onCheckedChange_bio_def onCheckedChange_coworking_def
      onCheckedChange_raw_def lab_a_state_def lab_a_draft_def equipment_L1_def
      example_coworking_state_def example_coworking_values_def example_raw_state_def
      example_raw_values_def updatedPlans_def clear_rent_def
      handleFormSubmit_bio_def validEquipment_def trim_def is_white_space_def
      rentValidation_def rent_provided_def truthy_number_def submissionData_bio_def
      rentalPlans_def plan_price_def number_or_zero_def)

section \<open>Payload and outcome of a submission\<close>

lemma trim_empty_iff: "trim s = [] \<longleftrightarrow> list_all is_white_space s"
proof
  assume "trim s = []"
  then have all: "\<forall>c\<in>set (dropWhile is_white_space s). is_white_space c"
    by (simp add: trim_def dropWhile_eq_Nil_conv)
  have "dropWhile is_white_space s = []"
  proof (rule ccontr)
    assume ne: "dropWhile is_white_space s \<noteq> []"
    then have "\<not> is_white_space (hd (dropWhile is_white_space s))"
      by (rule hd_dropWhile)
    moreover have "hd (dropWhile is_white_space s) \<in> set (dropWhile is_white_space s)"
      using ne by simp
    ultimately show False using all by blast
  qed
  then show "list_all is_white_space s"
    by (simp add: dropWhile_eq_Nil_conv list_all_iff)
next
  assume "list_all is_white_space s"
  then show "trim s = []"
    by (auto simp: trim_def list_all_iff dest: set_dropWhileD)
qed

lemma copy_equipment_rows:
  "map (\<lambda>eq. \<lparr>labName = labName eq, equipmentName = equipmentName eq,
                capacityAndMake = capacityAndMake eq\<rparr>) rows = rows"
  by (induction rows) simp_all

lemma copy_area_details:
  "map (\<lambda>a. \<lparr>area = area a, type = type a, furnishing = furnishing a,
               customisation = customisation a\<rparr>) rows = rows"
  by (induction rows) simp_all

text \<open>
  C5: submitting the BioAlliedLabs draft named Lab A, with image \<^verbatim>\<open>u1\<close>, plan Monthly at
  5000 and the equipment row L1/E1/C1, when \<^verbatim>\<open>onSubmit\<close> resolves: the payload's
  \<^verbatim>\<open>rentalPlans\<close> is the single entry Monthly, 5000, Monthly, and afterwards the form is
  reset, the images are cleared and the equipment is one blank row.
\<close>

theorem lab_a_end_to_end:
  assumes "images_state st = [''u1'']"
    and "onSubmit (submissionData_bio st (lab_a_draft d v)) = Resolved"
  shows "handleFormSubmit_bio onSubmit st (lab_a_draft d v)
           = st\<lparr>form := \<lparr>form_values = defaultValues (form st),
                         defaultValues = defaultValues (form st), errors = Map.empty\<rparr>,
                images_state := [],
                submitted := submitted st @ [submissionData_bio st (lab_a_draft d v)],
                onChange_calls := Suc (onChange_calls st),
                equipment_state :=
                  [\<lparr>labName = [], equipmentName = [], capacityAndMake = []\<rparr>]\<rparr>
       \<and> p_rentalPlans (submissionData_bio st (lab_a_draft d v))
           = [\<lparr>plan_name = ''Monthly'', price = 5000, duration = ''Monthly''\<rparr>]"
proof -
  have valid: "validEquipment (lab_a_draft d v) = [equipment_L1]"
    by (simp add: validEquipment_def lab_a_draft_def equipment_L1_def trim_def
        is_white_space_def)
  have rent: "rentValidation (lab_a_draft d v)"
    by (simp add: rentValidation_def rent_provided_def truthy_number_def lab_a_draft_def)
  have plans: "selectedRentalPlans (lab_a_draft d v) = [''Monthly'']"
    by (simp add: lab_a_draft_def)
  have "p_rentalPlans (submissionData_bio st (lab_a_draft d v))
          = [\<lparr>plan_name = ''Monthly'', price = 5000, duration = ''Monthly''\<rparr>]"
    by (simp add: submissionData_bio_def rentalPlans_def plan_price_def number_or_zero_def
        truthy_number_def lab_a_draft_def)
  moreover have "handleFormSubmit_bio onSubmit st (lab_a_draft d v)
           = st\<lparr>form := \<lparr>form_values = defaultValues (form st),
                         defaultValues = defaultValues (form st), errors = Map.empty\<rparr>,
                images_state := [],
                submitted := submitted st @ [submissionData_bio st (lab_a_draft d v)],
                onChange_calls := Suc (onChange_calls st),
                equipment_state :=
                  [\<lparr>labName = [], equipmentName = [], capacityAndMake = []\<rparr>]\<rparr>"
    using assms valid rent plans
    by (simp add: handleFormSubmit_bio_def reset_def blank_equipment_def)
  ultimately show ?thesis by simp
qed

theorem lab_a_end_to_end_witness:
  "handleFormSubmit_bio (\<lambda>_. Resolved) (lab_a_state ''A lab'' None) (lab_a_draft ''A lab'' None)
     = \<lparr>form = \<lparr>form_values = lab_a_draft ''A lab'' None,
                defaultValues = lab_a_draft ''A lab'' None, errors = Map.empty\<rparr>,
        images_state = [],
        submitted = [submissionData_bio (lab_a_state ''A lab'' None) (lab_a_draft ''A lab'' None)],
        onChange_calls = 1,
        equipment_state = [\<lparr>labName = [], equipmentName = [], capacityAndMake = []\<rparr>]\<rparr>
   \<and> p_rentalPlans (submissionData_bio (lab_a_state ''A lab'' None) (lab_a_draft ''A lab'' None))
       = [\<lparr>plan_name = ''Monthly'', price = 5000, duration = ''Monthly''\<rparr>]"
  using lab_a_end_to_end [of "lab_a_state ''A lab'' None" "\<lambda>_. Resolved" "''A lab''" None]
  by (simp add: lab_a_state_def)

text \<open>
  C7: whenever a handler hands a payload to \<^verbatim>\<open>onSubmit\<close>, the payload carries the form's
  type tag, and its equipment (area details) are exactly the submitted rows with no blank
  sub-field, in their order: all three strings non-empty after trimming; area above 0 and
  the three enumerated fields set.
\<close>

theorem payload_records_and_type:
  assumes "submitted (handleFormSubmit_bio onB bst bv) \<noteq> submitted bst"
    and "submitted (handleFormSubmit_coworking onC cst cv) \<noteq> submitted cst"
    and "submitted (handleFormSubmit_raw onR rst rv) \<noteq> submitted rst"
  shows "submitted (handleFormSubmit_bio onB bst bv)
           = submitted bst @ [submissionData_bio bst bv]
       \<and> p_type (submissionData_bio bst bv) = ''bio-allied-labs''
       \<and> p_equipment (submissionData_bio bst bv)
           = filter (\<lambda>r. trim (labName r) \<noteq> [] \<and> trim (equipmentName r) \<noteq> [] \<and>
                         trim (capacityAndMake r) \<noteq> []) (equipment bv)
       \<and> submitted (handleFormSubmit_coworking onC cst cv)
           = submitted cst @ [submissionData_coworking cst cv]
       \<and> p_type (submissionData_coworking cst cv) = ''coworking-spaces''
       \<and> submitted (handleFormSubmit_raw onR rst rv)
           = submitted rst @ [submissionData_raw rst rv]
       \<and> p_type (submissionData_raw rst rv) = ''raw-space-lab''
       \<and> p_areaDetails (submissionData_raw rst rv)
           = filter (\<lambda>a. 0 < area a \<and> type a \<noteq> [] \<and> furnishing a \<noteq> [] \<and>
                         customisation a \<noteq> []) (areaDetails rv)"
proof -
  have "submitted (handleFormSubmit_bio onB bst bv) = submitted bst @ [submissionData_bio bst bv]"
    using assms(1)
    by (auto simp: handleFormSubmit_bio_def set_form_error_def split: if_splits outcome.splits)
  moreover have "submitted (handleFormSubmit_coworking onC cst cv)
      = submitted cst @ [submissionData_coworking cst cv]"
    using assms(2)
    by (auto simp: handleFormSubmit_coworking_def set_form_error_def
        split: if_splits outcome.splits)
  moreover have "submitted (handleFormSubmit_raw onR rst rv)
      = submitted rst @ [submissionData_raw rst rv]"
    using assms(3)
    by (auto simp: handleFormSubmit_raw_def set_form_error_def split: if_splits outcome.splits)
  moreover have "p_equipment (submissionData_bio bst bv)
           = filter (\<lambda>r. trim (labName r) \<noteq> [] \<and> trim (equipmentName r) \<noteq> [] \<and>
                         trim (capacityAndMake r) \<noteq> []) (equipment bv)"
    by (simp add: submissionData_bio_def copy_equipment_rows validEquipment_def)
  moreover have "p_areaDetails (submissionData_raw rst rv)
           = filter (\<lambda>a. 0 < area a \<and> type a \<noteq> [] \<and> furnishing a \<noteq> [] \<and>
                         customisation a \<noteq> []) (areaDetails rv)"
    by (simp add: submissionData_raw_def copy_area_details validAreaDetails_def
        truthy_string_def)
  ultimately show ?thesis
    by (simp add: submissionData_bio_def submissionData_coworking_def submissionData_raw_def)
qed

theorem payload_records_and_type_witness:
  "map p_equipment (submitted (handleFormSubmit_bio (\<lambda>_. Resolved) example_bio_state
      example_bio_values)) = [[equipment_L1, equipment_L3]]
   \<and> map p_type (submitted (handleFormSubmit_bio (\<lambda>_. Resolved) example_bio_state
      example_bio_values)) = [''bio-allied-labs'']
   \<and> map p_type (submitted (handleFormSubmit_coworking (\<lambda>_. Rejected) example_coworking_state
      example_coworking_values)) = [''coworking-spaces'']
   \<and> map p_areaDetails (submitted (handleFormSubmit_raw (\<lambda>_. Resolved) example_raw_state
      example_raw_values)) = [[area_A]]
   \<and> map p_type (submitted (handleFormSubmit_raw (\<lambda>_. Resolved) example_raw_state
      example_raw_values)) = [''raw-space-lab'']"
proof -
  have b: "submitted (handleFormSubmit_bio (\<lambda>_. Resolved) example_bio_state example_bio_values)
      \<noteq> submitted example_bio_state"
    by (simp add: handleFormSubmit_bio_def example_defs validEquipment_def trim_def
        is_white_space_def rentValidation_def rent_provided_def truthy_number_def)
  have c: "submitted (handleFormSubmit_coworking (\<lambda>_. Rejected) example_coworking_state
      example_coworking_values) \<noteq> submitted example_coworking_state"
    by (simp add: handleFormSubmit_coworking_def example_defs rentValidation_def
        rent_provided_def truthy_number_def set_form_error_def)
  have r: "submitted (handleFormSubmit_raw (\<lambda>_. Resolved) example_raw_state example_raw_values)
      \<noteq> submitted example_raw_state"
    by (simp add: handleFormSubmit_raw_def example_defs validAreaDetails_def truthy_string_def
        rentValidation_def rent_provided_def truthy_number_def)
  show ?thesis
    using payload_records_and_type [OF b c r]
    by (simp add: example_defs trim_def is_white_space_def)
qed

text \<open>
  C8: when \<^verbatim>\<open>onSubmit\<close> rejects, the handler does not reset: the form values, the images and
  the repeatable-record list are what they were, and once \<^verbatim>\<open>onSubmit\<close> has been called the
  only changes are the root error \<^verbatim>\<open>Failed to submit form. Please try again.\<close> and the
  record of the call.
\<close>

theorem rejection_keeps_draft:
  assumes "onB (submissionData_bio bst bv) = Rejected"
    and "onC (submissionData_coworking cst cv) = Rejected"
    and "onR (submissionData_raw rst rv) = Rejected"
  shows "form_values (form (handleFormSubmit_bio onB bst bv)) = form_values (form bst)
       \<and> images_state (handleFormSubmit_bio onB bst bv) = images_state bst
       \<and> equipment_state (handleFormSubmit_bio onB bst bv) = equipment_state bst
       \<and> (submitted (handleFormSubmit_bio onB bst bv) \<noteq> submitted bst \<longrightarrow>
            handleFormSubmit_bio onB bst bv
              = bst\<lparr>form := (form bst)\<lparr>errors := (errors (form bst))
                       (''root'' \<mapsto> ''Failed to submit form. Please try again.'')\<rparr>,
                     submitted := submitted bst @ [submissionData_bio bst bv]\<rparr>)
       \<and> form_values (form (handleFormSubmit_coworking onC cst cv)) = form_values (form cst)
       \<and> images_state (handleFormSubmit_coworking onC cst cv) = images_state cst
       \<and> (submitted (handleFormSubmit_coworking onC cst cv) \<noteq> submitted cst \<longrightarrow>
            handleFormSubmit_coworking onC cst cv
              = cst\<lparr>form := (form cst)\<lparr>errors := (errors (form cst))
                       (''root'' \<mapsto> ''Failed to submit form. Please try again.'')\<rparr>,
                     submitted := submitted cst @ [submissionData_coworking cst cv]\<rparr>)
       \<and> form_values (form (handleFormSubmit_raw onR rst rv)) = form_values (form rst)
       \<and> images_state (handleFormSubmit_raw onR rst rv) = images_state rst
       \<and> areaDetails_state (handleFormSubmit_raw onR rst rv) = areaDetails_state rst
       \<and> (submitted (handleFormSubmit_raw onR rst rv) \<noteq> submitted rst \<longrightarrow>
            handleFormSubmit_raw onR rst rv
              = rst\<lparr>form := (form rst)\<lparr>errors := (errors (form rst))
                       (''root'' \<mapsto> ''Failed to submit form. Please try again.'')\<rparr>,
                     submitted := submitted rst @ [submissionData_raw rst rv]\<rparr>)"
proof -
  have "form_values (form (handleFormSubmit_bio onB bst bv)) = form_values (form bst)"
    "images_state (handleFormSubmit_bio onB bst bv) = images_state bst"
    "equipment_state (handleFormSubmit_bio onB bst bv) = equipment_state bst"
    "submitted (handleFormSubmit_bio onB bst bv) \<noteq> submitted bst \<longrightarrow>
            handleFormSubmit_bio onB bst bv
              = bst\<lparr>form := (form bst)\<lparr>errors := (errors (form bst))
                       (''root'' \<mapsto> ''Failed to submit form. Please try again.'')\<rparr>,
                     submitted := submitted bst @ [submissionData_bio bst bv]\<rparr>"
    using assms(1)
    by (simp_all add: handleFormSubmit_bio_def set_form_error_def setError_def)
  moreover have
    "form_values (form (handleFormSubmit_coworking onC cst cv)) = form_values (form cst)"
    "images_state (handleFormSubmit_coworking onC cst cv) = images_state cst"
    "submitted (handleFormSubmit_coworking onC cst cv) \<noteq> submitted cst \<longrightarrow>
            handleFormSubmit_coworking onC cst cv
              = cst\<lparr>form := (form cst)\<lparr>errors := (errors (form cst))
                       (''root'' \<mapsto> ''Failed to submit form. Please try again.'')\<rparr>,
                     submitted := submitted cst @ [submissionData_coworking cst cv]\<rparr>"
    using assms(2)
    by (simp_all add: handleFormSubmit_coworking_def set_form_error_def setError_def)
  moreover have "form_values (form (handleFormSubmit_raw onR rst rv)) = form_values (form rst)"
    "images_state (handleFormSubmit_raw onR rst rv) = images_state rst"
    "areaDetails_state (handleFormSubmit_raw onR rst rv) = areaDetails_state rst"
    "submitted (handleFormSubmit_raw onR rst rv) \<noteq> submitted rst \<longrightarrow>
            handleFormSubmit_raw onR rst rv
              = rst\<lparr>form := (form rst)\<lparr>errors := (errors (form rst))
                       (''root'' \<mapsto> ''Failed to submit form. Please try again.'')\<rparr>,
                     submitted := submitted rst @ [submissionData_raw rst rv]\<rparr>"
    using assms(3)
    by (simp_all add: handleFormSubmit_raw_def set_form_error_def setError_def)
  ultimately show ?thesis by blast
qed

theorem rejection_keeps_draft_witness:
  "errors (form (handleFormSubmit_bio (\<lambda>_. Rejected) example_bio_state example_bio_values))
      ''root'' = Some ''Failed to submit form. Please try again.''
   \<and> form_values (form (handleFormSubmit_bio (\<lambda>_. Rejected) example_bio_state
        example_bio_values)) = example_bio_values
   \<and> images_state (handleFormSubmit_bio (\<lambda>_. Rejected) example_bio_state example_bio_values)
       = [''u1'']
   \<and> equipment_state (handleFormSubmit_bio (\<lambda>_. Rejected) example_bio_state
        example_bio_values) = [equipment_L1, equipment_L2, equipment_L3]
   \<and> errors (form (handleFormSubmit_coworking (\<lambda>_. Rejected) example_coworking_state
        example_coworking_values)) ''root'' = Some ''Failed to submit form. Please try again.''
   \<and> form_values (form (handleFormSubmit_coworking (\<lambda>_. Rejected) example_coworking_state
        example_coworking_values)) = example_coworking_values
   \<and> images_state (handleFormSubmit_coworking (\<lambda>_. Rejected) example_coworking_state
        example_coworking_values) = [''u3'']
   \<and> errors (form (handleFormSubmit_raw (\<lambda>_. Rejected) example_raw_state example_raw_values))
        ''root'' = Some ''Failed to submit form. Please try again.''
   \<and> form_values (form (handleFormSubmit_raw (\<lambda>_. Rejected) example_raw_state
        example_raw_values)) = example_raw_values
   \<and> images_state (handleFormSubmit_raw (\<lambda>_. Rejected) example_raw_state example_raw_values)
       = [''u2'']
   \<and> areaDetails_state (handleFormSubmit_raw (\<lambda>_. Rejected) example_raw_state
        example_raw_values) = [area_B, area_A]"
proof -
  have b: "submitted (handleFormSubmit_bio (\<lambda>_. Rejected) example_bio_state example_bio_values)
      \<noteq> submitted example_bio_state"
    by (simp add: handleFormSubmit_bio_def example_defs validEquipment_def trim_def
        is_white_space_def rentValidation_def rent_provided_def truthy_number_def
        set_form_error_def)
  have c: "submitted (handleFormSubmit_coworking (\<lambda>_. Rejected) example_coworking_state
      example_coworking_values) \<noteq> submitted example_coworking_state"
    by (simp add: handleFormSubmit_coworking_def example_defs rentValidation_def
        rent_provided_def truthy_number_def set_form_error_def)
  have r: "submitted (handleFormSubmit_raw (\<lambda>_. Rejected) example_raw_state example_raw_values)
      \<noteq> submitted example_raw_state"
    by (simp add: handleFormSubmit_raw_def example_defs validAreaDetails_def truthy_string_def
        rentValidation_def rent_provided_def truthy_number_def set_form_error_def)
  show ?thesis
    using b c r
      rejection_keeps_draft [of "\<lambda>_. Rejected" example_bio_state example_bio_values
        "\<lambda>_. Rejected" example_coworking_state example_coworking_values
        "\<lambda>_. Rejected" example_raw_state example_raw_values]
    by (simp add: example_bio_state_def example_coworking_state_def example_raw_state_def)
qed

section \<open>Redirect after sign-in\<close>

text \<open>
  The callback alone: for status \<^verbatim>\<open>authenticated\<close> and a session with a user it pushes the
  \<^verbatim>\<open>from\<close> parameter when that is non-empty, otherwise the dashboard of the user type; for
  any other status, and for a session without a user, it pushes nothing.
\<close>

lemma redirect_effect_target:
  "redirect_effect status sess fp =
     (if status = authenticated \<and> sess \<noteq> None \<and> user (the sess) \<noteq> None
      then Some (if string_or_empty fp \<noteq> [] then string_or_empty fp
                 else if userType (the (user (the sess))) = Some ''startup''
                 then ''/startup/dashboard''
                 else ''/service-provider/dashboard'')
      else None)"
  by (auto simp: redirect_effect_def Let_def split: option.splits)

text \<open>
  C9: an authenticated session should be redirected to the \<^verbatim>\<open>from\<close> parameter, or to the
  dashboard of the user's type. The page does not get that far: its JSX uses \<^verbatim>\<open>Suspense\<close>,
  which the module never imports, so rendering throws a ReferenceError, the effect never
  runs and nothing is pushed, although the callback by itself would push \<^verbatim>\<open>/facilities/7\<close>
  for this session.
\<close>

theorem sign_in_render_throws:
  "render_SignIn = Inl (ReferenceError ''Suspense'')
   \<and> SignIn_router_push authenticated
        (Some \<lparr>user = Some \<lparr>userType = Some ''startup''\<rparr>\<rparr>) (Some ''/facilities/7'') = None
   \<and> redirect_effect authenticated
        (Some \<lparr>user = Some \<lparr>userType = Some ''startup''\<rparr>\<rparr>) (Some ''/facilities/7'')
       = Some ''/facilities/7''"
  by (simp add: SignIn_router_push_def render_SignIn_def page_imports_def jsx_references_def
      redirect_effect_def string_or_empty_def)

end
